theory Spec2Isabelle
  imports Main
begin

section \<open>Data model\<close>

text \<open>
  The registry keeps \<^emph>\<open>templates\<close>, each owned by a \<^emph>\<open>project\<close>. Identifiers are UUIDs in
  the source (\<^verbatim>\<open>Column(UUID(as_uuid=True), primary_key=True, default=uuid.uuid4)\<close>); only
  their equality matters, so they are natural numbers here. A configuration is a Python
  \<^verbatim>\<open>Dict[str, Any]\<close>; it is kept as an association list, which is falsy exactly when it is
  empty, as the dict is.
\<close>

type_synonym uuid = nat
type_synonym config_dict = "(string \<times> string) list"

record project =
  proj_id :: uuid
  proj_name :: string

text \<open>
  The columns that class \<^verbatim>\<open>Template\<close> (models/template.py) declares: \<^verbatim>\<open>id\<close>, \<^verbatim>\<open>alias\<close>
  and \<^verbatim>\<open>project_id\<close>, here the fields \<open>tmpl_id\<close>, \<open>tmpl_alias\<close> and \<open>project_id\<close>. The
  class declares no other column; in particular it has neither \<^verbatim>\<open>config\<close> nor
  \<^verbatim>\<open>dockerfile_content\<close>.
\<close>

record template =
  tmpl_id :: uuid
  tmpl_alias :: string
  project_id :: uuid

text \<open>
  The exceptions that travel through the service and the build endpoint. All of them derive
  from Python's \<^verbatim>\<open>Exception\<close>; \<open>HTTPException\<close> carries its status code and detail,
  \<open>OtherError\<close> stands for whatever else a collaborator may raise.
\<close>

datatype exn =
    IntegrityError
  | ValueError string
  | TypeError string
  | AttributeError string
  | HTTPException nat string
  | OtherError string

definition quoted :: "string \<Rightarrow> string" where
  "quoted s = CHR 0x27 # s @ [CHR 0x27]"

section \<open>The templates table\<close>

text \<open>
  The table is the list of its rows, in insertion order. The storage layer enforces the
  primary key on \<^verbatim>\<open>id\<close> and the composite constraint declared in \<^verbatim>\<open>__table_args__\<close>:
  \<^verbatim>\<open>UniqueConstraint('project_id', 'alias', name='templates_project_alias_unique')\<close>
  (in the second draft \<^verbatim>\<open>Index('idx_alias_project', 'alias', 'project_id', unique=True)\<close>).
  The column \<^verbatim>\<open>alias\<close> itself is declared with \<^verbatim>\<open>index=True\<close> only, which is not unique.
  A statement that violates a constraint raises \<open>IntegrityError\<close> and leaves the table as it
  was.
\<close>

definition store_insert :: "template \<Rightarrow> template list \<Rightarrow> exn + template list" where
  "store_insert r rows =
     (if list_ex (\<lambda>t. tmpl_id t = tmpl_id r) rows then Inl IntegrityError
      else if list_ex (\<lambda>t. project_id t = project_id r \<and> tmpl_alias t = tmpl_alias r) rows
      then Inl IntegrityError
      else Inr (rows @ [r]))"

text \<open>\<^verbatim>\<open>UPDATE templates SET ... WHERE id = :id\<close>, the row given with its new column values.\<close>

definition store_update :: "template \<Rightarrow> template list \<Rightarrow> exn + template list" where
  "store_update r rows =
     (if list_ex (\<lambda>t. tmpl_id t \<noteq> tmpl_id r \<and> project_id t = project_id r \<and> tmpl_alias t = tmpl_alias r) rows
      then Inl IntegrityError
      else Inr (map (\<lambda>t. if tmpl_id t = tmpl_id r then r else t) rows))"

definition store_delete :: "uuid \<Rightarrow> template list \<Rightarrow> template list" where
  "store_delete i rows = filter (\<lambda>t. tmpl_id t \<noteq> i) rows"

datatype store_op = Insert template | Update template | Delete uuid

fun store_apply :: "store_op \<Rightarrow> template list \<Rightarrow> exn + template list" where
  "store_apply (Insert r) rows = store_insert r rows"
| "store_apply (Update r) rows = store_update r rows"
| "store_apply (Delete i) rows = Inr (store_delete i rows)"

text \<open>A writer whose statement is rejected changes nothing.\<close>

definition store_try :: "store_op \<Rightarrow> template list \<Rightarrow> template list" where
  "store_try op rows = (case store_apply op rows of Inl e \<Rightarrow> rows | Inr rows' \<Rightarrow> rows')"

text \<open>What the two constraints guarantee about a table.\<close>

definition project_alias_unique :: "template list \<Rightarrow> bool" where
  "project_alias_unique rows = distinct (map (\<lambda>t. (project_id t, tmpl_alias t)) rows)"

definition store_inv :: "template list \<Rightarrow> bool" where
  "store_inv rows = (distinct (map tmpl_id rows) \<and> project_alias_unique rows)"

section \<open>The database session\<close>

text \<open>
  A SQLAlchemy \<^verbatim>\<open>Session\<close> as the service uses it: \<open>committed\<close> is what the database
  durably holds, \<open>working\<close> is the table as the session's open transaction sees it
  (flushed but possibly uncommitted), and \<open>calls\<close> records every storage access the
  session was asked to perform, in order.
\<close>

datatype db_call =
    QById uuid uuid
  | QByAlias uuid string "uuid option"
  | Add
  | Flush
  | DeleteRow uuid
  | Commit
  | Rollback

record session =
  committed :: "template list"
  working :: "template list"
  calls :: "db_call list"

definition logged :: "db_call list \<Rightarrow> session \<Rightarrow> session" where
  "logged cs s = s\<lparr>calls := calls s @ cs\<rparr>"

text \<open>\<^verbatim>\<open>db.add(template); db.flush()\<close>: the INSERT is sent inside the open transaction.\<close>

definition db_add_flush :: "template \<Rightarrow> session \<Rightarrow> (exn + unit) \<times> session" where
  "db_add_flush r s =
     (case store_insert r (working s) of
        Inl e \<Rightarrow> (Inl e, logged [Add, Flush] s)
      | Inr rows \<Rightarrow> (Inr (), logged [Add, Flush] (s\<lparr>working := rows\<rparr>)))"

definition db_delete :: "template \<Rightarrow> session \<Rightarrow> session" where
  "db_delete t s = logged [DeleteRow (tmpl_id t)] (s\<lparr>working := store_delete (tmpl_id t) (working s)\<rparr>)"

definition db_commit :: "session \<Rightarrow> session" where
  "db_commit s = logged [Commit] (s\<lparr>committed := working s\<rparr>)"

definition db_rollback :: "session \<Rightarrow> session" where
  "db_rollback s = logged [Rollback] (s\<lparr>working := committed s\<rparr>)"

text \<open>
  \<^verbatim>\<open>db.commit()\<close> with a loaded object: when a mapped column really changed, the UPDATE is
  flushed first, and then the transaction is committed. An UPDATE that the table rejects,
  or that finds its row gone, raises out of the commit; the failed flush leaves the rows as
  they were.
\<close>

definition db_commit_dirty :: "template \<Rightarrow> template \<Rightarrow> session \<Rightarrow> (exn + unit) \<times> session" where
  "db_commit_dirty old new s =
     (if new = old then (Inr (), db_commit s)
      else if \<not> list_ex (\<lambda>t. tmpl_id t = tmpl_id new) (working s)
      then (Inl (OtherError ''StaleDataError''), logged [Commit] s)
      else (case store_update new (working s) of
              Inl e \<Rightarrow> (Inl e, logged [Commit] s)
            | Inr rows \<Rightarrow> (Inr (), db_commit (s\<lparr>working := rows\<rparr>))))"

text \<open>
  Writes that other sessions commit while this one is between two of its statements. They go
  through the same table and are subject to the same constraints.
\<close>

definition concurrent :: "store_op list \<Rightarrow> session \<Rightarrow> session" where
  "concurrent ops s =
     s\<lparr>committed := fold store_try ops (committed s), working := fold store_try ops (working s)\<rparr>"

section \<open>Template: the constructor and the two scoped queries\<close>

text \<open>
  \<^verbatim>\<open>Template\<close> has no \<^verbatim>\<open>__init__\<close> of its own, so \<^verbatim>\<open>Template(**kwargs)\<close> is the declarative
  constructor of SQLAlchemy: it goes through the keywords in order and raises \<open>TypeError\<close>
  at the first that does not name an attribute of the class. The names below are those the
  class body declares (\<^verbatim>\<open>Base\<close>, of \<^verbatim>\<open>backend.database\<close>, is a plain declarative base). The
  identifier is filled in by the column default when the row is flushed.
\<close>

definition template_attributes :: "string list" where
  "template_attributes =
     [''__tablename__'', ''id'', ''alias'', ''project_id'', ''__table_args__'', ''project'',
      ''__repr__'', ''get_by_project_and_alias'', ''alias_exists_in_project'']"

definition Template_init :: "string list \<Rightarrow> template \<Rightarrow> exn + template" where
  "Template_init kwargs t =
     (case find (\<lambda>k. k \<notin> set template_attributes) kwargs of
        Some k \<Rightarrow> Inl (TypeError (quoted k @ '' is an invalid keyword argument for Template''))
      | None \<Rightarrow> Inr t)"

text \<open>
  \<^verbatim>\<open>session.query(cls).filter(cls.project_id == project_id, cls.alias == alias).first()\<close>
\<close>

definition get_by_project_and_alias :: "session \<Rightarrow> uuid \<Rightarrow> string \<Rightarrow> template option" where
  "get_by_project_and_alias s pid a =
     find (\<lambda>t. project_id t = pid \<and> tmpl_alias t = a) (working s)"

text \<open>
  \<^verbatim>\<open>if exclude_id: query = query.filter(cls.id != exclude_id)\<close>; a UUID object is always
  truthy, so the filter is applied whenever an identifier is passed.
\<close>

definition alias_exists_in_project :: "session \<Rightarrow> uuid \<Rightarrow> string \<Rightarrow> uuid option \<Rightarrow> bool" where
  "alias_exists_in_project s pid a exclude_id =
     (let query = filter (\<lambda>t. project_id t = pid \<and> tmpl_alias t = a) (working s);
          query' = (case exclude_id of
                      None \<Rightarrow> query
                    | Some x \<Rightarrow> filter (\<lambda>t. tmpl_id t \<noteq> x) query)
      in find (\<lambda>t. True) query' \<noteq> None)"

section \<open>TemplateService\<close>

text \<open>
  What the surroundings contribute to one call of \<^verbatim>\<open>create_template\<close>: the identifier that
  \<^verbatim>\<open>uuid.uuid4\<close> yields for the new row, the writes other sessions commit after the
  pre-check, and what \<^verbatim>\<open>BuildSystem().start_build(template)\<close> does.
\<close>

datatype build_outcome = Started | Raises exn

record env =
  new_id :: uuid
  others :: "store_op list"
  build :: build_outcome

text \<open>
  The handler of \<^verbatim>\<open>create_template\<close>: \<^verbatim>\<open>except IntegrityError\<close> rolls back and raises the
  \<open>ValueError\<close>; every other exception leaves the \<^verbatim>\<open>try\<close> as it is.
\<close>

definition create_handler :: "string \<Rightarrow> exn \<Rightarrow> session \<Rightarrow> (exn + template) \<times> session" where
  "create_handler a e s =
     (if e = IntegrityError
      then (Inl (ValueError (''Alias '' @ quoted a @ '' already exists in project'')), db_rollback s)
      else (Inl e, s))"

definition create_template ::
    "project \<Rightarrow> string \<Rightarrow> config_dict \<Rightarrow> string option \<Rightarrow> env \<Rightarrow> session
       \<Rightarrow> (exn + template) \<times> session" where
  "create_template project a cfg dockerfile ev s0 =
     (let s1 = logged [QByAlias (proj_id project) a None] s0 in
      if alias_exists_in_project s0 (proj_id project) a None
      then (Inl (ValueError (''Alias '' @ quoted a @ '' already exists in project ''
                               @ quoted (proj_name project))), s1)
      else
        let s2 = concurrent (others ev) s1 in
        (case Template_init [''alias'', ''project_id'', ''config'', ''dockerfile_content'']
                \<lparr>tmpl_id = new_id ev, tmpl_alias = a, project_id = proj_id project\<rparr> of
           Inl e \<Rightarrow> create_handler a e s2
         | Inr t \<Rightarrow>
             (case db_add_flush t s2 of
                (Inl e, s3) \<Rightarrow> create_handler a e s3
              | (Inr u, s3) \<Rightarrow>
                  (case build ev of
                     Raises e \<Rightarrow> create_handler a e s3
                   | Started \<Rightarrow> (Inr t, db_commit s3)))))"

text \<open>
  \<^verbatim>\<open>update_template\<close>. \<^verbatim>\<open>if alias and alias != template.alias\<close> and \<^verbatim>\<open>if config\<close> test
  truthiness: \<^verbatim>\<open>None\<close>, the empty string and the empty dict all count as not supplied.
\<close>

definition truthy :: "'a list option \<Rightarrow> 'a list option" where
  "truthy v = (case v of None \<Rightarrow> None | Some x \<Rightarrow> if x = [] then None else Some x)"

text \<open>
  The object that \<^verbatim>\<open>update_template\<close> returns. \<^verbatim>\<open>template.alias = alias\<close> assigns a mapped
  column. \<^verbatim>\<open>template.config = config\<close> does not: the class maps no such column, so the
  assignment sets a plain attribute of the Python object, which no UPDATE carries to the
  table. \<open>plain_config\<close> is that attribute, \<open>None\<close> when the call did not set it.
\<close>

record template_object =
  columns :: template
  plain_config :: "config_dict option"

text \<open>
  \<^verbatim>\<open>self.db.commit()\<close> at the end of \<^verbatim>\<open>update_template\<close>, after the writes \<open>ops\<close> that other
  sessions commit between the checks of the method and its commit. The method has no
  handler: what the commit raises reaches the caller.
\<close>

definition update_commit ::
    "template \<Rightarrow> template \<Rightarrow> config_dict option \<Rightarrow> store_op list \<Rightarrow> session
       \<Rightarrow> (exn + template_object) \<times> session" where
  "update_commit old new attr ops s =
     (case db_commit_dirty old new (concurrent ops s) of
        (Inl e, s') \<Rightarrow> (Inl e, s')
      | (Inr u, s') \<Rightarrow> (Inr \<lparr>columns = new, plain_config = attr\<rparr>, s'))"

definition update_template ::
    "project \<Rightarrow> uuid \<Rightarrow> string option \<Rightarrow> config_dict option \<Rightarrow> store_op list \<Rightarrow> session
       \<Rightarrow> (exn + template_object) \<times> session" where
  "update_template project template_id alias_arg cfg ops s0 =
     (let s1 = logged [QById template_id (proj_id project)] s0 in
      case find (\<lambda>t. tmpl_id t = template_id \<and> project_id t = proj_id project) (working s0) of
        None \<Rightarrow> (Inl (ValueError ''Template not found in project''), s1)
      | Some t \<Rightarrow>
          (case truthy alias_arg of
             None \<Rightarrow> update_commit t t (truthy cfg) ops s1
           | Some a \<Rightarrow>
               if a = tmpl_alias t then update_commit t t (truthy cfg) ops s1
               else
                 let s2 = logged [QByAlias (proj_id project) a (Some (tmpl_id t))] s1 in
                 if alias_exists_in_project s1 (proj_id project) a (Some (tmpl_id t))
                 then (Inl (ValueError (''Alias '' @ quoted a @ '' already exists in project'')), s2)
                 else update_commit t (t\<lparr>tmpl_alias := a\<rparr>) (truthy cfg) ops s2))"

text \<open>
  \<^verbatim>\<open>delete_template(self, template_id)\<close>. Its first statement reads \<^verbatim>\<open>self.db\<close>. The
  build endpoint calls it through the class, \<^verbatim>\<open>TemplateService.delete_template(db, id)\<close>,
  so that \<^verbatim>\<open>self\<close> is the Session, which has no attribute \<^verbatim>\<open>db\<close>; the receiver is
  therefore part of the model.
\<close>

datatype receiver = Service project | RawSession

definition delete_template :: "receiver \<Rightarrow> uuid \<Rightarrow> session \<Rightarrow> (exn + bool) \<times> session" where
  "delete_template self template_id s0 =
     (case self of
        RawSession \<Rightarrow>
          (Inl (AttributeError (quoted ''Session'' @ '' object has no attribute '' @ quoted ''db'')), s0)
      | Service project \<Rightarrow>
          (let s1 = logged [QById template_id (proj_id project)] s0 in
           case find (\<lambda>t. tmpl_id t = template_id \<and> project_id t = proj_id project) (working s0) of
             None \<Rightarrow> (Inr False, s1)
           | Some t \<Rightarrow> (Inr True, db_commit (db_delete t s1))))"

text \<open>The two read-only lookups; they leave the session as it is.\<close>

definition get_template :: "project \<Rightarrow> uuid \<Rightarrow> session \<Rightarrow> template option" where
  "get_template project template_id s =
     find (\<lambda>t. tmpl_id t = template_id \<and> project_id t = proj_id project) (working s)"

definition get_by_alias :: "project \<Rightarrow> string \<Rightarrow> session \<Rightarrow> template option" where
  "get_by_alias project a s = get_by_project_and_alias s (proj_id project) a"

section \<open>The build endpoint\<close>

record build_request =
  req_alias :: string
  req_config :: config_dict
  req_dockerfile_content :: "string option"
  force_rebuild :: bool

record build_response =
  template_id :: uuid
  status :: string
  message :: string

text \<open>The body of the \<^verbatim>\<open>try\<close> block of \<^verbatim>\<open>request_build\<close>.\<close>

definition request_build_try ::
    "project \<Rightarrow> build_request \<Rightarrow> env \<Rightarrow> session \<Rightarrow> (exn + build_response) \<times> session" where
  "request_build_try project req ev s0 =
     (let s1 = logged [QByAlias (proj_id project) (req_alias req) None] s0;
          create = (\<lambda>s. case create_template project (req_alias req) (req_config req)
                                (req_dockerfile_content req) ev s of
                           (Inl e, s') \<Rightarrow> (Inl e, s')
                         | (Inr t, s') \<Rightarrow>
                             (Inr \<lparr>template_id = tmpl_id t, status = ''building'',
                                   message = ''Template build started successfully''\<rparr>, s'))
      in case get_by_project_and_alias s0 (proj_id project) (req_alias req) of
           None \<Rightarrow> create s1
         | Some existing_template \<Rightarrow>
             if force_rebuild req
             then (case delete_template RawSession (tmpl_id existing_template) s1 of
                     (Inl e, s2) \<Rightarrow> (Inl e, s2)
                   | (Inr b, s2) \<Rightarrow> create s2)
             else (Inl (HTTPException 400
                          (''Alias '' @ quoted (req_alias req) @ '' is already taken in project ''
                             @ quoted (proj_name project))), s1))"

text \<open>
  The two handlers: \<^verbatim>\<open>except IntegrityError\<close>, then \<^verbatim>\<open>except Exception\<close>, which every
  other exception matches, the endpoint's own \<open>HTTPException\<close> included.
\<close>

definition request_build ::
    "project \<Rightarrow> build_request \<Rightarrow> env \<Rightarrow> session \<Rightarrow> (exn + build_response) \<times> session" where
  "request_build project req ev s0 =
     (case request_build_try project req ev s0 of
        (Inr r, s) \<Rightarrow> (Inr r, s)
      | (Inl e, s) \<Rightarrow>
          if e = IntegrityError
          then (Inl (HTTPException 400 ''Template build failed due to data integrity constraints''), s)
          else (Inl (HTTPException 500 ''Internal server error during template build''), s))"

section \<open>Reachable sessions\<close>

definition session_inv :: "session \<Rightarrow> bool" where
  "session_inv s = (store_inv (committed s) \<and> store_inv (working s))"

definition empty_session :: session where
  "empty_session = \<lparr>committed = [], working = [], calls = []\<rparr>"

text \<open>
  A session is reachable when it arises from the empty database by calls of the service and
  of the build endpoint, by writes of other sessions, and by statements sent to the session
  directly, without the service and hence without its pre-check.
\<close>

inductive reachable :: "session \<Rightarrow> bool" where
  start: "reachable empty_session"
| by_create: "reachable s \<Longrightarrow> reachable (snd (create_template p a cfg d ev s))"
| by_update: "reachable s \<Longrightarrow> reachable (snd (update_template p i a cfg ops s))"
| by_delete: "reachable s \<Longrightarrow> reachable (snd (delete_template self i s))"
| by_request: "reachable s \<Longrightarrow> reachable (snd (request_build p req ev s))"
| by_insert: "reachable s \<Longrightarrow> reachable (snd (db_add_flush r s))"
| by_commit: "reachable s \<Longrightarrow> reachable (db_commit s)"
| by_rollback: "reachable s \<Longrightarrow> reachable (db_rollback s)"
| by_others: "reachable s \<Longrightarrow> reachable (concurrent ops s)"

section \<open>Example data\<close>

definition project1 :: project where
  "project1 = \<lparr>proj_id = 1, proj_name = ''Project 1''\<rparr>"

definition project2 :: project where
  "project2 = \<lparr>proj_id = 2, proj_name = ''Project 2''\<rparr>"

definition quiet :: "uuid \<Rightarrow> env" where
  "quiet i = \<lparr>new_id = i, others = [], build = Started\<rparr>"

definition web_row :: "uuid \<Rightarrow> uuid \<Rightarrow> template" where
  "web_row i p = \<lparr>tmpl_id = i, tmpl_alias = ''web'', project_id = p\<rparr>"

definition one_web :: session where
  "one_web = \<lparr>committed = [web_row 10 1], working = [web_row 10 1], calls = []\<rparr>"



definition api_row :: "uuid \<Rightarrow> uuid \<Rightarrow> template" where
  "api_row i p = \<lparr>tmpl_id = i, tmpl_alias = ''api'', project_id = p\<rparr>"

definition blank_row :: "uuid \<Rightarrow> uuid \<Rightarrow> template" where
  "blank_row i p = \<lparr>tmpl_id = i, tmpl_alias = [], project_id = p\<rparr>"

definition web_and_api :: session where
  "web_and_api = \<lparr>committed = [web_row 10 1, api_row 12 1],
                   working = [web_row 10 1, api_row 12 1], calls = []\<rparr>"

definition web_and_blank :: session where
  "web_and_blank = \<lparr>committed = [web_row 10 1, blank_row 12 1],
                     working = [web_row 10 1, blank_row 12 1], calls = []\<rparr>"

definition web_request :: "bool \<Rightarrow> build_request" where
  "web_request force =
     \<lparr>req_alias = ''web'', req_config = [], req_dockerfile_content = None, force_rebuild = force\<rparr>"

text \<open>A build backend that refuses the build, and a writer that gets in first.\<close>

definition backend_down :: "uuid \<Rightarrow> env" where
  "backend_down i = \<lparr>new_id = i, others = [], build = Raises (OtherError ''backend down'')\<rparr>"

definition raced :: "uuid \<Rightarrow> template \<Rightarrow> env" where
  "raced i r = \<lparr>new_id = i, others = [Insert r], build = Started\<rparr>"

section \<open>The constraints are an invariant of every statement\<close>

lemma store_insert_inv:
  "store_inv rows \<Longrightarrow> store_insert r rows = Inr rows' \<Longrightarrow> store_inv rows'"
proof -
  assume inv: "store_inv rows" and ins: "store_insert r rows = Inr rows'"
  from ins have pk: "tmpl_id r \<notin> tmpl_id ` set rows"
    and uq: "(project_id r, tmpl_alias r) \<notin> (\<lambda>t. (project_id t, tmpl_alias t)) ` set rows"
    and rows': "rows' = rows @ [r]"
    by (auto simp: store_insert_def list_ex_iff split: if_splits)
  with inv show ?thesis
    by (simp add: store_inv_def project_alias_unique_def)
qed

lemma store_update_inv:
  assumes "store_inv rows" and "store_update r rows = Inr rows'"
  shows "store_inv rows'"
proof -
  let ?f = "\<lambda>t. if tmpl_id t = tmpl_id r then r else t"
  let ?key = "\<lambda>t. (project_id t, tmpl_alias t)"
  from assms(2) have free: "\<not> list_ex (\<lambda>t. tmpl_id t \<noteq> tmpl_id r \<and> project_id t = project_id r
        \<and> tmpl_alias t = tmpl_alias r) rows"
    and rows': "rows' = map ?f rows"
    by (auto simp: store_update_def split: if_splits)
  from assms(1) have ids: "distinct (map tmpl_id rows)" and keys: "distinct (map ?key rows)"
    by (simp_all add: store_inv_def project_alias_unique_def)
  have same_ids: "map tmpl_id rows' = map tmpl_id rows"
    by (simp add: rows')
  from ids have d: "distinct rows" and inj_id: "inj_on tmpl_id (set rows)"
    by (simp_all add: distinct_map)
  from keys have inj_key: "inj_on ?key (set rows)"
    by (simp add: distinct_map)
  have "inj_on (?key \<circ> ?f) (set rows)"
  proof (rule inj_onI)
    fix x y
    assume x: "x \<in> set rows" and y: "y \<in> set rows" and eq: "(?key \<circ> ?f) x = (?key \<circ> ?f) y"
    show "x = y"
    proof (cases "tmpl_id x = tmpl_id r")
      case True
      note xr = this
      show ?thesis
      proof (cases "tmpl_id y = tmpl_id r")
        case True
        with xr have "tmpl_id x = tmpl_id y" by simp
        from inj_onD [OF inj_id this x y] show ?thesis .
      next
        case False
        with xr eq y free show ?thesis by (auto simp: list_ex_iff)
      qed
    next
      case False
      note xr = this
      show ?thesis
      proof (cases "tmpl_id y = tmpl_id r")
        case True
        with xr eq x free show ?thesis by (auto simp: list_ex_iff)
      next
        case False
        with xr eq have "?key x = ?key y" by simp
        from inj_onD [OF inj_key this x y] show ?thesis .
      qed
    qed
  qed
  with d have "distinct (map (?key \<circ> ?f) rows)"
    by (simp add: distinct_map)
  then have "distinct (map ?key rows')"
    by (simp add: rows' comp_def)
  with ids same_ids show ?thesis
    by (simp add: store_inv_def project_alias_unique_def)
qed

lemma store_delete_inv: "store_inv rows \<Longrightarrow> store_inv (store_delete i rows)"
  by (simp add: store_inv_def project_alias_unique_def store_delete_def distinct_map_filter)

lemma store_try_inv: "store_inv rows \<Longrightarrow> store_inv (store_try op rows)"
  by (cases op)
     (auto simp: store_try_def split: sum.splits
           intro: store_insert_inv store_update_inv store_delete_inv)

lemma fold_store_try_inv: "store_inv rows \<Longrightarrow> store_inv (fold store_try ops rows)"
  by (induction ops arbitrary: rows) (simp_all add: store_try_inv)

lemma logged_inv [simp]: "session_inv (logged cs s) = session_inv s"
  by (simp add: session_inv_def logged_def)

lemma concurrent_inv: "session_inv s \<Longrightarrow> session_inv (concurrent ops s)"
  by (simp add: session_inv_def concurrent_def fold_store_try_inv)

lemma db_commit_inv: "session_inv s \<Longrightarrow> session_inv (db_commit s)"
  by (simp add: session_inv_def db_commit_def logged_def)

lemma db_rollback_inv: "session_inv s \<Longrightarrow> session_inv (db_rollback s)"
  by (simp add: session_inv_def db_rollback_def logged_def)

lemma db_delete_inv: "session_inv s \<Longrightarrow> session_inv (db_delete t s)"
  by (simp add: session_inv_def db_delete_def logged_def store_delete_inv)

lemma db_add_flush_inv: "session_inv s \<Longrightarrow> session_inv (snd (db_add_flush r s))"
  by (auto simp: session_inv_def db_add_flush_def logged_def split: sum.splits
           intro: store_insert_inv)

lemma db_commit_dirty_inv: "session_inv s \<Longrightarrow> session_inv (snd (db_commit_dirty old new s))"
  by (auto simp: session_inv_def db_commit_dirty_def db_commit_def logged_def split: sum.splits
           intro: store_update_inv)

lemma create_handler_inv: "session_inv s \<Longrightarrow> session_inv (snd (create_handler a e s))"
  by (simp add: create_handler_def db_rollback_inv)

lemma create_template_inv:
  "session_inv s \<Longrightarrow> session_inv (snd (create_template p a cfg d ev s))"
proof -
  assume inv: "session_inv s"
  let ?s2 = "concurrent (others ev) (logged [QByAlias (proj_id p) a None] s)"
  from inv have s2: "session_inv ?s2" by (simp add: concurrent_inv)
  have s3: "\<And>t. session_inv (snd (db_add_flush t ?s2))"
    using s2 by (rule db_add_flush_inv)
  have flushed: "\<And>t e s3. db_add_flush t ?s2 = (e, s3) \<Longrightarrow> session_inv s3"
    using s3 by (metis snd_conv)
  show ?thesis
    using inv s2
    by (auto simp: create_template_def Let_def create_handler_inv db_commit_inv
             split: sum.splits build_outcome.splits prod.splits
             dest: flushed)
qed

lemma update_commit_inv:
  "session_inv s \<Longrightarrow> session_inv (snd (update_commit old new attr ops s))"
  using db_commit_dirty_inv [of "concurrent ops s" old new] concurrent_inv [of s ops]
  by (cases "db_commit_dirty old new (concurrent ops s)")
     (auto simp: update_commit_def split: sum.splits)

lemma update_template_inv:
  "session_inv s \<Longrightarrow> session_inv (snd (update_template p i a cfg ops s))"
  by (auto simp: update_template_def Let_def update_commit_inv split: option.splits)

lemma delete_template_inv:
  "session_inv s \<Longrightarrow> session_inv (snd (delete_template self i s))"
  by (auto simp: delete_template_def Let_def db_commit_inv db_delete_inv
           split: option.splits receiver.splits)

lemma request_build_try_inv:
  "session_inv s \<Longrightarrow> session_inv (snd (request_build_try p req ev s))"
proof -
  assume inv: "session_inv s"
  have c: "\<And>s'. session_inv s' \<Longrightarrow>
      session_inv (snd (case create_template p (req_alias req) (req_config req)
                                (req_dockerfile_content req) ev s' of
                           (Inl e, s'') \<Rightarrow> (Inl e, s'')
                         | (Inr t, s'') \<Rightarrow>
                             (Inr \<lparr>template_id = tmpl_id t, status = ''building'',
                                   message = ''Template build started successfully''\<rparr>, s'')))"
  proof -
    fix s' assume "session_inv s'"
    then have "session_inv (snd (create_template p (req_alias req) (req_config req)
                                (req_dockerfile_content req) ev s'))"
      by (rule create_template_inv)
    then show "?thesis s'"
      by (cases "create_template p (req_alias req) (req_config req)
                                (req_dockerfile_content req) ev s'") (auto split: sum.splits)
  qed
  show ?thesis
    using inv
    by (auto simp: request_build_try_def Let_def delete_template_def c split: option.splits)
qed

lemma request_build_inv:
  "session_inv s \<Longrightarrow> session_inv (snd (request_build p req ev s))"
  using request_build_try_inv [of s p req ev]
  by (cases "request_build_try p req ev s") (auto simp: request_build_def split: sum.splits)

section \<open>Evaluating the model\<close>

lemmas service_defs =
  create_template_def create_handler_def update_template_def update_commit_def
  delete_template_def request_build_def request_build_try_def get_template_def
  get_by_alias_def get_by_project_and_alias_def alias_exists_in_project_def
  Template_init_def template_attributes_def truthy_def quoted_def

lemmas session_defs =
  db_add_flush_def db_commit_def db_rollback_def db_delete_def db_commit_dirty_def
  concurrent_def logged_def store_insert_def store_update_def store_delete_def
  store_try_def Let_def

lemmas example_defs =
  empty_session_def project1_def project2_def quiet_def web_row_def one_web_def
  web_request_def backend_down_def raced_def api_row_def web_and_api_def
  blank_row_def web_and_blank_def

section \<open>Uniqueness of (project, alias)\<close>

lemma reachable_inv: "reachable s \<Longrightarrow> session_inv s"
proof (induction rule: reachable.induct)
  case start
  show ?case
    by (simp add: session_inv_def store_inv_def project_alias_unique_def empty_session_def)
qed (simp_all add: create_template_inv update_template_inv delete_template_inv
       request_build_inv db_add_flush_inv db_commit_inv db_rollback_inv concurrent_inv)

lemma db_add_flush_rejects:
  "list_ex (\<lambda>t. project_id t = project_id r \<and> tmpl_alias t = tmpl_alias r) (working s)
     \<Longrightarrow> fst (db_add_flush r s) = Inl IntegrityError"
  by (simp add: db_add_flush_def store_insert_def)

lemma two_projects_reachable:
  "reachable (db_commit (snd (db_add_flush (web_row 11 2)
                (snd (db_add_flush (web_row 10 1) empty_session)))))"
  by (intro reachable.intros)

lemma two_projects_rows:
  "committed (db_commit (snd (db_add_flush (web_row 11 2)
                (snd (db_add_flush (web_row 10 1) empty_session)))))
     = [web_row 10 1, web_row 11 2]"
  by (simp add: session_defs example_defs)

text \<open>
  Claim C1. In every reachable session, the committed table and the table as the open
  transaction sees it hold no two rows with the same (project identifier, alias) pair. The
  storage layer enforces this by itself: reachability includes inserts sent directly to the
  session and the writes of other sessions, none of which runs the service's pre-check, and
  an insert whose pair is already present is rejected with \<open>IntegrityError\<close>. The alias alone
  is not unique: a reachable table holds the alias \<open>web\<close> twice, in two projects.
\<close>

theorem C1_project_alias_unique:
  "(reachable s \<longrightarrow> project_alias_unique (committed s) \<and> project_alias_unique (working s))
   \<and> (reachable s \<and> list_ex (\<lambda>t. project_id t = project_id r \<and> tmpl_alias t = tmpl_alias r) (working s)
        \<longrightarrow> fst (db_add_flush r s) = Inl IntegrityError)
   \<and> (\<exists>s'. reachable s' \<and> \<not> distinct (map tmpl_alias (committed s')))"
proof (intro conjI impI)
  assume "reachable s"
  then have "session_inv s" by (rule reachable_inv)
  then show "project_alias_unique (committed s)" and "project_alias_unique (working s)"
    by (simp_all add: session_inv_def store_inv_def)
next
  assume "reachable s \<and> list_ex (\<lambda>t. project_id t = project_id r \<and> tmpl_alias t = tmpl_alias r) (working s)"
  then show "fst (db_add_flush r s) = Inl IntegrityError"
    by (simp add: db_add_flush_rejects)
next
  have "\<not> distinct (map tmpl_alias [web_row 10 1, web_row 11 2])"
    by (simp add: web_row_def)
  with two_projects_reachable two_projects_rows
  show "\<exists>s'. reachable s' \<and> \<not> distinct (map tmpl_alias (committed s'))"
    by metis
qed

theorem C1_project_alias_unique_witness:
  "reachable (snd (db_add_flush (web_row 12 1)
             (snd (db_add_flush (web_row 10 1) empty_session))))
   \<and> fst (db_add_flush (web_row 12 1)
             (snd (db_add_flush (web_row 10 1) empty_session)))
       = Inl IntegrityError
   \<and> working (snd (db_add_flush (web_row 12 1)
             (snd (db_add_flush (web_row 10 1) empty_session))))
       = [web_row 10 1]
   \<and> project_alias_unique (working (snd (db_add_flush (web_row 12 1)
             (snd (db_add_flush (web_row 10 1) empty_session)))))"
proof -
  let ?s1 = "snd (db_add_flush (web_row 10 1) empty_session)"
  let ?s2 = "snd (db_add_flush (web_row 12 1) ?s1)"
  have r1: "reachable ?s1" by (intro reachable.intros)
  have r2: "reachable ?s2" by (intro reachable.intros)
  have w1: "working ?s1 = [web_row 10 1]"
    by (simp add: session_defs example_defs)
  have dup: "list_ex (\<lambda>t. project_id t = project_id (web_row 12 1)
                \<and> tmpl_alias t = tmpl_alias (web_row 12 1)) (working ?s1)"
    unfolding w1 by (simp add: web_row_def)
  from C1_project_alias_unique [of ?s1 "web_row 12 1"] r1 dup
  have rej: "fst (db_add_flush (web_row 12 1) ?s1) = Inl IntegrityError" by blast
  have w2: "working ?s2 = [web_row 10 1]"
    by (simp add: session_defs example_defs)
  from C1_project_alias_unique [of ?s2 "web_row 12 1"] r2
  have "project_alias_unique (working ?s2)" by blast
  with r2 rej w2 show ?thesis by simp
qed

section \<open>Creating a template\<close>

lemma alias_exists_None:
  "alias_exists_in_project s pid a None
     = list_ex (\<lambda>t. project_id t = pid \<and> tmpl_alias t = a) (working s)"
  by (auto simp: alias_exists_in_project_def find_None_iff list_ex_iff filter_empty_conv)

lemma alias_exists_Some:
  "alias_exists_in_project s pid a (Some x)
     = list_ex (\<lambda>t. project_id t = pid \<and> tmpl_alias t = a \<and> tmpl_id t \<noteq> x) (working s)"
  by (auto simp: alias_exists_in_project_def find_None_iff list_ex_iff filter_empty_conv)

text \<open>The keywords that \<open>create_template\<close> passes: \<^verbatim>\<open>config\<close> is the first the class lacks.\<close>

lemma Template_init_raises:
  "Template_init [''alias'', ''project_id'', ''config'', ''dockerfile_content''] t
     = Inl (TypeError (quoted ''config'' @ '' is an invalid keyword argument for Template''))"
  by (simp add: Template_init_def template_attributes_def)

lemma create_template_conflict:
  assumes "alias_exists_in_project s (proj_id p) a None"
  shows "create_template p a cfg d ev s =
           (Inl (ValueError (''Alias '' @ quoted a @ '' already exists in project ''
                               @ quoted (proj_name p))),
            logged [QByAlias (proj_id p) a None] s)"
  using assms by (simp add: create_template_def Let_def)

lemma create_template_free:
  assumes "\<not> alias_exists_in_project s (proj_id p) a None"
  shows "create_template p a cfg d ev s =
           (Inl (TypeError (quoted ''config'' @ '' is an invalid keyword argument for Template'')),
            concurrent (others ev) (logged [QByAlias (proj_id p) a None] s))"
  using assms
  by (simp add: create_template_def Let_def Template_init_raises create_handler_def)



lemma create_template_queries_first:
  "\<exists>rest. calls (snd (create_template p a cfg d ev s))
            = calls s @ QByAlias (proj_id p) a None # rest"
  by (cases "alias_exists_in_project s (proj_id p) a None")
     (simp_all add: create_template_conflict create_template_free concurrent_def logged_def)


text \<open>
  Claim C3, at two projects. Project 1 holds the alias \<open>web\<close>; project 2, which holds
  nothing, asks for the same alias. The pre-check, scoped to project 2, passes, and then the
  constructor raises \<open>TypeError\<close>: no row is created, the alias does not resolve in project
  2, and through the build endpoint the caller receives the generic 500. The same happens
  to the first create in an empty table.
\<close>

theorem C3_create_answers_type_error:
  "alias_exists_in_project one_web (proj_id project2) ''web'' None = False
   \<and> create_template project2 ''web'' [] None (quiet 11) one_web
     = (Inl (TypeError (quoted ''config'' @ '' is an invalid keyword argument for Template'')),
        \<lparr>committed = [web_row 10 1], working = [web_row 10 1],
          calls = [QByAlias 2 ''web'' None]\<rparr>)
   \<and> get_by_alias project2 ''web''
        (snd (create_template project2 ''web'' [] None (quiet 11) one_web)) = None
   \<and> request_build project2 (web_request False) (quiet 11) one_web
     = (Inl (HTTPException 500 ''Internal server error during template build''),
        \<lparr>committed = [web_row 10 1], working = [web_row 10 1],
          calls = [QByAlias 2 ''web'' None, QByAlias 2 ''web'' None]\<rparr>)
   \<and> create_template project1 ''web'' [] None (quiet 10) empty_session
     = (Inl (TypeError (quoted ''config'' @ '' is an invalid keyword argument for Template'')),
        \<lparr>committed = [], working = [], calls = [QByAlias 1 ''web'' None]\<rparr>)"
  by (simp add: service_defs session_defs example_defs)

section \<open>A second request for an occupied alias\<close>



text \<open>
  Claim C4, at the build endpoint. Project 1 holds the alias \<open>web\<close> and asks for it again with
  \<open>force_rebuild\<close> false. The body of the \<^verbatim>\<open>try\<close> raises the 400 that names the alias and the
  project, but the endpoint's own \<^verbatim>\<open>except Exception\<close> catches it: the caller receives the
  generic 500. The rows are untouched.
\<close>

theorem C4_second_request_answers_500:
  "request_build_try project1 (web_request False) (quiet 11) one_web
     = (Inl (HTTPException 400 (''Alias '' @ quoted ''web'' @ '' is already taken in project ''
                                  @ quoted ''Project 1'')),
        logged [QByAlias 1 ''web'' None] one_web)
   \<and> request_build project1 (web_request False) (quiet 11) one_web
     = (Inl (HTTPException 500 ''Internal server error during template build''),
        logged [QByAlias 1 ''web'' None] one_web)
   \<and> committed (snd (request_build project1 (web_request False) (quiet 11) one_web))
     = committed one_web
   \<and> working (snd (request_build project1 (web_request False) (quiet 11) one_web))
     = working one_web"
  by (simp add: service_defs session_defs example_defs)

text \<open>
  Claim C5, at the build endpoint. Project 1 holds the alias \<open>web\<close> under identifier 10 and
  asks for a forced rebuild. \<^verbatim>\<open>TemplateService.delete_template(db, existing_template.id)\<close>
  raises \<open>AttributeError\<close>, the endpoint turns it into the generic 500, nothing is deleted and
  nothing is created: identifier 10 still resolves and the alias still names the old row.
\<close>

theorem C5_forced_rebuild_answers_500:
  "delete_template RawSession 10 (logged [QByAlias 1 ''web'' None] one_web)
     = (Inl (AttributeError (quoted ''Session'' @ '' object has no attribute '' @ quoted ''db'')),
        logged [QByAlias 1 ''web'' None] one_web)
   \<and> request_build project1 (web_request True) (quiet 11) one_web
     = (Inl (HTTPException 500 ''Internal server error during template build''),
        logged [QByAlias 1 ''web'' None] one_web)
   \<and> committed (snd (request_build project1 (web_request True) (quiet 11) one_web))
     = [web_row 10 1]
   \<and> get_template project1 10 (snd (request_build project1 (web_request True) (quiet 11) one_web))
     = Some (web_row 10 1)
   \<and> get_by_alias project1 ''web'' (snd (request_build project1 (web_request True) (quiet 11) one_web))
     = Some (web_row 10 1)"
  by (simp add: service_defs session_defs example_defs)

section \<open>An empty alias\<close>

text \<open>
  Claim C8 fails: with the empty alias \<open>create_template\<close> first queries the table. In an
  empty table it then fails in the constructor, with the very error it raises for the alias
  \<open>web\<close>; where project 1 holds a row with the empty alias, it fails with the alias conflict.
  Neither failure is a validation of the alias, and both come after a storage access.
\<close>

theorem C8_empty_alias_counterexample:
  "create_template project1 '''' [] None (quiet 10) empty_session
     = (Inl (TypeError (quoted ''config'' @ '' is an invalid keyword argument for Template'')),
        \<lparr>committed = [], working = [], calls = [QByAlias 1 '''' None]\<rparr>)
   \<and> create_template project1 ''web'' [] None (quiet 10) empty_session
     = (Inl (TypeError (quoted ''config'' @ '' is an invalid keyword argument for Template'')),
        \<lparr>committed = [], working = [], calls = [QByAlias 1 ''web'' None]\<rparr>)
   \<and> create_template project1 '''' [] None (quiet 11) web_and_blank
     = (Inl (ValueError (''Alias '' @ quoted '''' @ '' already exists in project ''
                           @ quoted ''Project 1'')),
        \<lparr>committed = [web_row 10 1, blank_row 12 1], working = [web_row 10 1, blank_row 12 1],
          calls = [QByAlias 1 '''' None]\<rparr>)"
  by (simp add: service_defs session_defs example_defs)

text \<open>
  Claim C8, amended. \<open>create_template\<close> does not validate the alias. With the empty alias its
  first step is the existence query, a storage access, as for every alias; and if the
  project holds a row with the empty alias, the call fails with the alias-conflict
  \<open>ValueError\<close> and leaves every row as it is.
\<close>

theorem C8_empty_alias_is_not_validated:
  "(\<exists>rest. calls (snd (create_template p '''' cfg d ev s))
             = calls s @ QByAlias (proj_id p) '''' None # rest)
   \<and> (list_ex (\<lambda>t. project_id t = proj_id p \<and> tmpl_alias t = '''') (working s)
        \<longrightarrow> create_template p '''' cfg d ev s
              = (Inl (ValueError (''Alias '' @ quoted '''' @ '' already exists in project ''
                                    @ quoted (proj_name p))),
                 s\<lparr>calls := calls s @ [QByAlias (proj_id p) '''' None]\<rparr>))"
proof (intro conjI impI)
  show "\<exists>rest. calls (snd (create_template p '''' cfg d ev s))
             = calls s @ QByAlias (proj_id p) '''' None # rest"
    by (rule create_template_queries_first)
next
  assume "list_ex (\<lambda>t. project_id t = proj_id p \<and> tmpl_alias t = '''') (working s)"
  then have "alias_exists_in_project s (proj_id p) '''' None"
    by (simp add: alias_exists_None)
  then show "create_template p '''' cfg d ev s
              = (Inl (ValueError (''Alias '' @ quoted '''' @ '' already exists in project ''
                                    @ quoted (proj_name p))),
                 s\<lparr>calls := calls s @ [QByAlias (proj_id p) '''' None]\<rparr>)"
    by (simp add: create_template_conflict logged_def)
qed

theorem C8_empty_alias_is_not_validated_witness:
  "list_ex (\<lambda>t. project_id t = proj_id project1 \<and> tmpl_alias t = '''') (working web_and_blank)
   \<and> create_template project1 '''' [] None (quiet 11) web_and_blank
       = (Inl (ValueError (''Alias '' @ quoted '''' @ '' already exists in project ''
                             @ quoted ''Project 1'')),
          \<lparr>committed = [web_row 10 1, blank_row 12 1],
            working = [web_row 10 1, blank_row 12 1], calls = [QByAlias 1 '''' None]\<rparr>)
   \<and> (\<exists>rest. calls (snd (create_template project1 '''' [] None (quiet 11) web_and_blank))
               = QByAlias 1 '''' None # rest)"
proof -
  have held: "list_ex (\<lambda>t. project_id t = proj_id project1 \<and> tmpl_alias t = '''')
                (working web_and_blank)"
    by (simp add: example_defs)
  note c8 = C8_empty_alias_is_not_validated [of project1 "[]" None "quiet 11" web_and_blank]
  from c8 held
  have "create_template project1 '''' [] None (quiet 11) web_and_blank
       = (Inl (ValueError (''Alias '' @ quoted '''' @ '' already exists in project ''
                             @ quoted (proj_name project1))),
          web_and_blank\<lparr>calls := calls web_and_blank @ [QByAlias (proj_id project1) '''' None]\<rparr>)"
    by blast
  then have run: "create_template project1 '''' [] None (quiet 11) web_and_blank
       = (Inl (ValueError (''Alias '' @ quoted '''' @ '' already exists in project ''
                             @ quoted ''Project 1'')),
          \<lparr>committed = [web_row 10 1, blank_row 12 1],
            working = [web_row 10 1, blank_row 12 1], calls = [QByAlias 1 '''' None]\<rparr>)"
    by (simp add: project1_def web_and_blank_def)
  from c8
  have "\<exists>rest. calls (snd (create_template project1 '''' [] None (quiet 11) web_and_blank))
               = calls web_and_blank @ QByAlias (proj_id project1) '''' None # rest"
    by blast
  then have first: "\<exists>rest. calls (snd (create_template project1 '''' [] None (quiet 11) web_and_blank))
               = QByAlias 1 '''' None # rest"
    by (simp add: project1_def web_and_blank_def)
  from held run first show ?thesis by blast
qed

section \<open>A build backend that refuses the build\<close>




section \<open>Updating a template\<close>

lemma concurrent_Nil [simp]: "concurrent [] s = s"
  by (simp add: concurrent_def)

lemma found_row:
  assumes "find (\<lambda>t. tmpl_id t = i \<and> project_id t = q) rows = Some T"
  shows "T \<in> set rows" and "tmpl_id T = i" and "project_id T = q"
  using assms by (auto simp: find_Some_iff)

lemma no_other_holder:
  assumes inv: "store_inv rows" and T: "T \<in> set rows"
  shows "\<not> list_ex (\<lambda>t. project_id t = project_id T \<and> tmpl_alias t = tmpl_alias T
                      \<and> tmpl_id t \<noteq> tmpl_id T) rows"
proof
  assume "list_ex (\<lambda>t. project_id t = project_id T \<and> tmpl_alias t = tmpl_alias T
                      \<and> tmpl_id t \<noteq> tmpl_id T) rows"
  then obtain t where t: "t \<in> set rows" and ne: "tmpl_id t \<noteq> tmpl_id T"
    and key: "(project_id t, tmpl_alias t) = (project_id T, tmpl_alias T)"
    by (auto simp: list_ex_iff)
  from inv have "inj_on (\<lambda>t. (project_id t, tmpl_alias t)) (set rows)"
    by (simp add: store_inv_def project_alias_unique_def distinct_map)
  from inj_onD [OF this key t T] ne show False by simp
qed

lemma find_map_replace:
  assumes "find (\<lambda>t. tmpl_id t = i \<and> project_id t = q) rows = Some T"
      and "tmpl_id n = i" and "project_id n = q"
  shows "find (\<lambda>t. tmpl_id t = i \<and> project_id t = q)
           (map (\<lambda>t. if tmpl_id t = i then n else t) rows) = Some n"
  using assms by (induction rows) (auto split: if_splits)

lemma find_renamed:
  assumes "list_ex (\<lambda>t. tmpl_id t = i) rows"
      and "\<not> list_ex (\<lambda>t. project_id t = q \<and> tmpl_alias t = b \<and> tmpl_id t \<noteq> i) rows"
      and "project_id n = q" and "tmpl_alias n = b"
  shows "find (\<lambda>t. project_id t = q \<and> tmpl_alias t = b)
           (map (\<lambda>t. if tmpl_id t = i then n else t) rows) = Some n"
  using assms by (induction rows) auto

lemma update_commit_same:
  "update_commit t t attr ops s
     = (Inr \<lparr>columns = t, plain_config = attr\<rparr>, db_commit (concurrent ops s))"
  by (simp add: update_commit_def db_commit_dirty_def)

lemma update_commit_renamed:
  assumes "new \<noteq> old"
      and "list_ex (\<lambda>t. tmpl_id t = tmpl_id new) (working s)"
      and "\<not> list_ex (\<lambda>t. tmpl_id t \<noteq> tmpl_id new \<and> project_id t = project_id new
                         \<and> tmpl_alias t = tmpl_alias new) (working s)"
  shows "update_commit old new attr [] s =
           (Inr \<lparr>columns = new, plain_config = attr\<rparr>,
            s\<lparr>committed := map (\<lambda>t. if tmpl_id t = tmpl_id new then new else t) (working s),
              working := map (\<lambda>t. if tmpl_id t = tmpl_id new then new else t) (working s),
              calls := calls s @ [Commit]\<rparr>)"
  using assms
  by (simp add: update_commit_def db_commit_dirty_def store_update_def db_commit_def logged_def)


lemma update_keeps_alias:
  assumes found: "find (\<lambda>t. tmpl_id t = i \<and> project_id t = proj_id p) (working s) = Some T"
      and a: "a = None \<or> a = Some [] \<or> a = Some (tmpl_alias T)"
  shows "update_template p i a c ops s
           = (Inr \<lparr>columns = T, plain_config = truthy c\<rparr>,
              s\<lparr>committed := fold store_try ops (working s),
                working := fold store_try ops (working s),
                calls := calls s @ [QById i (proj_id p), Commit]\<rparr>)"
  using found a
  by (auto simp: update_template_def Let_def truthy_def update_commit_same db_commit_def
        concurrent_def logged_def)

lemma update_other_alias:
  assumes found: "find (\<lambda>t. tmpl_id t = i \<and> project_id t = proj_id p) (working s) = Some T"
      and b: "b \<noteq> []" "b \<noteq> tmpl_alias T"
  shows "update_template p i (Some b) c ops s
           = (if list_ex (\<lambda>t. project_id t = proj_id p \<and> tmpl_alias t = b \<and> tmpl_id t \<noteq> i) (working s)
              then (Inl (ValueError (''Alias '' @ quoted b @ '' already exists in project'')),
                    s\<lparr>calls := calls s @ [QById i (proj_id p), QByAlias (proj_id p) b (Some i)]\<rparr>)
              else update_commit T (T\<lparr>tmpl_alias := b\<rparr>) (truthy c) ops
                     (s\<lparr>calls := calls s @ [QById i (proj_id p), QByAlias (proj_id p) b (Some i)]\<rparr>))"
  using found b found_row(2) [OF found]
  by (simp add: update_template_def Let_def truthy_def alias_exists_Some logged_def)

lemma update_renames:
  assumes found: "find (\<lambda>t. tmpl_id t = i \<and> project_id t = proj_id p) (working s) = Some T"
      and b: "b \<noteq> []" "b \<noteq> tmpl_alias T"
      and free: "\<not> list_ex (\<lambda>t. project_id t = proj_id p \<and> tmpl_alias t = b \<and> tmpl_id t \<noteq> i)
                    (working s)"
  shows "update_template p i (Some b) c [] s
           = (Inr \<lparr>columns = T\<lparr>tmpl_alias := b\<rparr>, plain_config = truthy c\<rparr>,
              s\<lparr>committed := map (\<lambda>t. if tmpl_id t = i then T\<lparr>tmpl_alias := b\<rparr> else t) (working s),
                working := map (\<lambda>t. if tmpl_id t = i then T\<lparr>tmpl_alias := b\<rparr> else t) (working s),
                calls := calls s @ [QById i (proj_id p), QByAlias (proj_id p) b (Some i), Commit]\<rparr>)"
proof -
  note T = found_row [OF found]
  let ?new = "T\<lparr>tmpl_alias := b\<rparr>"
  let ?s2 = "s\<lparr>calls := calls s @ [QById i (proj_id p), QByAlias (proj_id p) b (Some i)]\<rparr>"
  have ne: "?new \<noteq> T"
  proof
    assume "?new = T"
    then have "tmpl_alias ?new = tmpl_alias T" by simp
    with b(2) show False by simp
  qed
  have there: "list_ex (\<lambda>t. tmpl_id t = tmpl_id ?new) (working ?s2)"
    using T by (auto simp: list_ex_iff)
  have alone: "\<not> list_ex (\<lambda>t. tmpl_id t \<noteq> tmpl_id ?new \<and> project_id t = project_id ?new
                         \<and> tmpl_alias t = tmpl_alias ?new) (working ?s2)"
    using free T by (auto simp: list_ex_iff)
  from update_commit_renamed [OF ne there alone, of "truthy c"] free T
  show ?thesis
    by (simp add: update_other_alias [OF found b])
qed

text \<open>
  Claim C7 fails at the empty alias. Project 1 holds \<open>web\<close> under identifier 10 and the empty
  alias under identifier 12. Renaming template 10 to the empty alias succeeds, although
  another template of the project holds it; nothing is renamed.
\<close>

theorem C7_empty_alias_counterexample:
  "list_ex (\<lambda>t. project_id t = proj_id project1 \<and> tmpl_alias t = '''' \<and> tmpl_id t \<noteq> 10)
     (working web_and_blank)
   \<and> update_template project1 10 (Some '''') None [] web_and_blank
     = (Inr \<lparr>columns = web_row 10 1, plain_config = None\<rparr>,
        \<lparr>committed = [web_row 10 1, blank_row 12 1], working = [web_row 10 1, blank_row 12 1],
          calls = [QById 10 1, Commit]\<rparr>)"
  by (simp add: service_defs session_defs example_defs)

text \<open>
  Claim C7, amended. Let \<open>T\<close> be the template with identifier \<open>i\<close> in project \<open>p\<close>, in a table
  that satisfies its constraints, with no other session writing during the call. An update
  of \<open>T\<close> with alias \<open>b\<close> succeeds exactly when \<open>b\<close> is empty or no row of \<open>p\<close> with another
  identifier holds \<open>b\<close>. When \<open>b\<close> is not empty, differs from the alias of \<open>T\<close> and is free,
  the row of \<open>T\<close>, and no other, is rewritten with alias \<open>b\<close> and committed, and both lookups
  find the renamed row. When \<open>b\<close> is not empty and is held by another row, the call fails
  with the alias conflict and no row changes. When \<open>b\<close> is empty or is the alias of \<open>T\<close>,
  the call returns \<open>T\<close>, no row changes, and the only storage calls are the lookup by
  identifier and the commit: the uniqueness query is not sent.
\<close>

theorem C7_rename_iff_alias_free_or_empty:
  assumes found: "find (\<lambda>t. tmpl_id t = i \<and> project_id t = proj_id p) (working s) = Some T"
      and inv: "store_inv (working s)"
  shows "((\<exists>u s'. update_template p i (Some b) cfg [] s = (Inr u, s'))
            \<longleftrightarrow> b = [] \<or> \<not> list_ex (\<lambda>t. project_id t = proj_id p \<and> tmpl_alias t = b
                                        \<and> tmpl_id t \<noteq> i) (working s))
         \<and> (b \<noteq> [] \<and> b \<noteq> tmpl_alias T
              \<and> \<not> list_ex (\<lambda>t. project_id t = proj_id p \<and> tmpl_alias t = b \<and> tmpl_id t \<noteq> i)
                    (working s)
            \<longrightarrow> update_template p i (Some b) cfg [] s
                  = (Inr \<lparr>columns = T\<lparr>tmpl_alias := b\<rparr>, plain_config = truthy cfg\<rparr>,
                     s\<lparr>committed := map (\<lambda>t. if tmpl_id t = i then T\<lparr>tmpl_alias := b\<rparr> else t)
                                        (working s),
                       working := map (\<lambda>t. if tmpl_id t = i then T\<lparr>tmpl_alias := b\<rparr> else t)
                                      (working s),
                       calls := calls s @ [QById i (proj_id p), QByAlias (proj_id p) b (Some i),
                                           Commit]\<rparr>)
                \<and> get_template p i (snd (update_template p i (Some b) cfg [] s))
                    = Some (T\<lparr>tmpl_alias := b\<rparr>)
                \<and> get_by_alias p b (snd (update_template p i (Some b) cfg [] s))
                    = Some (T\<lparr>tmpl_alias := b\<rparr>))
         \<and> (b \<noteq> []
              \<and> list_ex (\<lambda>t. project_id t = proj_id p \<and> tmpl_alias t = b \<and> tmpl_id t \<noteq> i)
                  (working s)
            \<longrightarrow> update_template p i (Some b) cfg [] s
                  = (Inl (ValueError (''Alias '' @ quoted b @ '' already exists in project'')),
                     s\<lparr>calls := calls s @ [QById i (proj_id p), QByAlias (proj_id p) b (Some i)]\<rparr>))
         \<and> (b = [] \<or> b = tmpl_alias T
            \<longrightarrow> update_template p i (Some b) cfg [] s
                  = (Inr \<lparr>columns = T, plain_config = truthy cfg\<rparr>,
                     s\<lparr>committed := working s, working := working s,
                       calls := calls s @ [QById i (proj_id p), Commit]\<rparr>))"
proof -
  note T = found_row [OF found]
  let ?other = "list_ex (\<lambda>t. project_id t = proj_id p \<and> tmpl_alias t = b \<and> tmpl_id t \<noteq> i)
                  (working s)"
  let ?new = "T\<lparr>tmpl_alias := b\<rparr>"
  let ?rows = "map (\<lambda>t. if tmpl_id t = i then ?new else t) (working s)"
  have own: "\<not> list_ex (\<lambda>t. project_id t = proj_id p \<and> tmpl_alias t = tmpl_alias T
                      \<and> tmpl_id t \<noteq> i) (working s)"
    using no_other_holder [OF inv T(1)] T by simp
  have keep: "b = [] \<or> b = tmpl_alias T
            \<longrightarrow> update_template p i (Some b) cfg [] s
                  = (Inr \<lparr>columns = T, plain_config = truthy cfg\<rparr>,
                     s\<lparr>committed := working s, working := working s,
                       calls := calls s @ [QById i (proj_id p), Commit]\<rparr>)"
    using update_keeps_alias [OF found, of "Some b" cfg "[]"] by auto
  have taken: "b \<noteq> [] \<and> ?other
            \<longrightarrow> update_template p i (Some b) cfg [] s
                  = (Inl (ValueError (''Alias '' @ quoted b @ '' already exists in project'')),
                     s\<lparr>calls := calls s @ [QById i (proj_id p), QByAlias (proj_id p) b (Some i)]\<rparr>)"
  proof
    assume h: "b \<noteq> [] \<and> ?other"
    with own have "b \<noteq> tmpl_alias T" by auto
    with h show "update_template p i (Some b) cfg [] s
                  = (Inl (ValueError (''Alias '' @ quoted b @ '' already exists in project'')),
                     s\<lparr>calls := calls s @ [QById i (proj_id p), QByAlias (proj_id p) b (Some i)]\<rparr>)"
      by (simp add: update_other_alias [OF found])
  qed
  have renamed: "b \<noteq> [] \<and> b \<noteq> tmpl_alias T \<and> \<not> ?other
            \<longrightarrow> update_template p i (Some b) cfg [] s
                  = (Inr \<lparr>columns = ?new, plain_config = truthy cfg\<rparr>,
                     s\<lparr>committed := ?rows, working := ?rows,
                       calls := calls s @ [QById i (proj_id p), QByAlias (proj_id p) b (Some i),
                                           Commit]\<rparr>)
                \<and> get_template p i (snd (update_template p i (Some b) cfg [] s)) = Some ?new
                \<and> get_by_alias p b (snd (update_template p i (Some b) cfg [] s)) = Some ?new"
  proof
    assume h: "b \<noteq> [] \<and> b \<noteq> tmpl_alias T \<and> \<not> ?other"
    then have run: "update_template p i (Some b) cfg [] s
                  = (Inr \<lparr>columns = ?new, plain_config = truthy cfg\<rparr>,
                     s\<lparr>committed := ?rows, working := ?rows,
                       calls := calls s @ [QById i (proj_id p), QByAlias (proj_id p) b (Some i),
                                           Commit]\<rparr>)"
      by (intro update_renames [OF found]) simp_all
    have by_id: "find (\<lambda>t. tmpl_id t = i \<and> project_id t = proj_id p) ?rows = Some ?new"
      using found T by (intro find_map_replace) simp_all
    have there: "list_ex (\<lambda>t. tmpl_id t = i) (working s)"
      using T by (auto simp: list_ex_iff)
    have by_alias: "find (\<lambda>t. project_id t = proj_id p \<and> tmpl_alias t = b) ?rows = Some ?new"
      using there h T by (intro find_renamed) simp_all
    from run by_id by_alias
    show "update_template p i (Some b) cfg [] s
                  = (Inr \<lparr>columns = ?new, plain_config = truthy cfg\<rparr>,
                     s\<lparr>committed := ?rows, working := ?rows,
                       calls := calls s @ [QById i (proj_id p), QByAlias (proj_id p) b (Some i),
                                           Commit]\<rparr>)
                \<and> get_template p i (snd (update_template p i (Some b) cfg [] s)) = Some ?new
                \<and> get_by_alias p b (snd (update_template p i (Some b) cfg [] s)) = Some ?new"
      by (simp add: get_template_def get_by_alias_def get_by_project_and_alias_def)
  qed
  have iff: "(\<exists>u s'. update_template p i (Some b) cfg [] s = (Inr u, s')) \<longleftrightarrow> b = [] \<or> \<not> ?other"
  proof (cases "b = [] \<or> b = tmpl_alias T")
    case True
    with keep own show ?thesis by auto
  next
    case False
    show ?thesis
    proof (cases ?other)
      case True
      with False taken show ?thesis by auto
    next
      case no: False
      with False renamed show ?thesis by auto
    qed
  qed
  from iff renamed taken keep show ?thesis by blast
qed

theorem C7_rename_iff_alias_free_or_empty_witness:
  "find (\<lambda>t. tmpl_id t = 10 \<and> project_id t = proj_id project1) (working web_and_api)
     = Some (web_row 10 1)
   \<and> store_inv (working web_and_api)
   \<and> update_template project1 10 (Some ''cli'') None [] web_and_api
       = (Inr \<lparr>columns = \<lparr>tmpl_id = 10, tmpl_alias = ''cli'', project_id = 1\<rparr>, plain_config = None\<rparr>,
          \<lparr>committed = [\<lparr>tmpl_id = 10, tmpl_alias = ''cli'', project_id = 1\<rparr>, api_row 12 1],
            working = [\<lparr>tmpl_id = 10, tmpl_alias = ''cli'', project_id = 1\<rparr>, api_row 12 1],
            calls = [QById 10 1, QByAlias 1 ''cli'' (Some 10), Commit]\<rparr>)
   \<and> get_by_alias project1 ''cli''
        (snd (update_template project1 10 (Some ''cli'') None [] web_and_api))
       = Some \<lparr>tmpl_id = 10, tmpl_alias = ''cli'', project_id = 1\<rparr>
   \<and> update_template project1 10 (Some ''api'') None [] web_and_api
       = (Inl (ValueError (''Alias '' @ quoted ''api'' @ '' already exists in project'')),
          \<lparr>committed = [web_row 10 1, api_row 12 1], working = [web_row 10 1, api_row 12 1],
            calls = [QById 10 1, QByAlias 1 ''api'' (Some 10)]\<rparr>)
   \<and> update_template project1 10 (Some ''web'') None [] web_and_api
       = (Inr \<lparr>columns = web_row 10 1, plain_config = None\<rparr>,
          \<lparr>committed = [web_row 10 1, api_row 12 1], working = [web_row 10 1, api_row 12 1],
            calls = [QById 10 1, Commit]\<rparr>)"
proof -
  have found: "find (\<lambda>t. tmpl_id t = 10 \<and> project_id t = proj_id project1) (working web_and_api)
     = Some (web_row 10 1)"
    by (simp add: example_defs)
  have inv: "store_inv (working web_and_api)"
    by (simp add: store_inv_def project_alias_unique_def example_defs)
  note c7 = C7_rename_iff_alias_free_or_empty [OF found inv, where cfg = None]
  have free: "''cli'' \<noteq> [] \<and> ''cli'' \<noteq> tmpl_alias (web_row 10 1)
              \<and> \<not> list_ex (\<lambda>t. project_id t = proj_id project1 \<and> tmpl_alias t = ''cli''
                              \<and> tmpl_id t \<noteq> 10) (working web_and_api)"
    by (simp add: example_defs)
  have taken: "''api'' \<noteq> [] \<and> list_ex (\<lambda>t. project_id t = proj_id project1 \<and> tmpl_alias t = ''api''
                              \<and> tmpl_id t \<noteq> 10) (working web_and_api)"
    by (simp add: example_defs)
  have own: "''web'' = [] \<or> ''web'' = tmpl_alias (web_row 10 1)"
    by (simp add: example_defs)
  from c7 [of "''cli''"] free
  have "update_template project1 10 (Some ''cli'') None [] web_and_api
          = (Inr \<lparr>columns = (web_row 10 1)\<lparr>tmpl_alias := ''cli''\<rparr>, plain_config = truthy None\<rparr>,
             web_and_api\<lparr>committed := map (\<lambda>t. if tmpl_id t = 10 then (web_row 10 1)\<lparr>tmpl_alias := ''cli''\<rparr> else t)
                                    (working web_and_api),
               working := map (\<lambda>t. if tmpl_id t = 10 then (web_row 10 1)\<lparr>tmpl_alias := ''cli''\<rparr> else t)
                                    (working web_and_api),
               calls := calls web_and_api @ [QById 10 (proj_id project1),
                                              QByAlias (proj_id project1) ''cli'' (Some 10), Commit]\<rparr>)"
    and "get_by_alias project1 ''cli''
           (snd (update_template project1 10 (Some ''cli'') None [] web_and_api))
          = Some ((web_row 10 1)\<lparr>tmpl_alias := ''cli''\<rparr>)"
    by blast+
  then have 1: "update_template project1 10 (Some ''cli'') None [] web_and_api
       = (Inr \<lparr>columns = \<lparr>tmpl_id = 10, tmpl_alias = ''cli'', project_id = 1\<rparr>, plain_config = None\<rparr>,
          \<lparr>committed = [\<lparr>tmpl_id = 10, tmpl_alias = ''cli'', project_id = 1\<rparr>, api_row 12 1],
            working = [\<lparr>tmpl_id = 10, tmpl_alias = ''cli'', project_id = 1\<rparr>, api_row 12 1],
            calls = [QById 10 1, QByAlias 1 ''cli'' (Some 10), Commit]\<rparr>)"
    and 2: "get_by_alias project1 ''cli''
        (snd (update_template project1 10 (Some ''cli'') None [] web_and_api))
       = Some \<lparr>tmpl_id = 10, tmpl_alias = ''cli'', project_id = 1\<rparr>"
    by (simp_all add: truthy_def example_defs)
  from c7 [of "''api''"] taken
  have "update_template project1 10 (Some ''api'') None [] web_and_api
          = (Inl (ValueError (''Alias '' @ quoted ''api'' @ '' already exists in project'')),
             web_and_api\<lparr>calls := calls web_and_api @ [QById 10 (proj_id project1),
                                              QByAlias (proj_id project1) ''api'' (Some 10)]\<rparr>)"
    by blast
  then have 3: "update_template project1 10 (Some ''api'') None [] web_and_api
       = (Inl (ValueError (''Alias '' @ quoted ''api'' @ '' already exists in project'')),
          \<lparr>committed = [web_row 10 1, api_row 12 1], working = [web_row 10 1, api_row 12 1],
            calls = [QById 10 1, QByAlias 1 ''api'' (Some 10)]\<rparr>)"
    by (simp add: project1_def web_and_api_def)
  from c7 [of "''web''"] own
  have "update_template project1 10 (Some ''web'') None [] web_and_api
          = (Inr \<lparr>columns = web_row 10 1, plain_config = truthy None\<rparr>,
             web_and_api\<lparr>committed := working web_and_api, working := working web_and_api,
               calls := calls web_and_api @ [QById 10 (proj_id project1), Commit]\<rparr>)"
    by blast
  then have 4: "update_template project1 10 (Some ''web'') None [] web_and_api
       = (Inr \<lparr>columns = web_row 10 1, plain_config = None\<rparr>,
          \<lparr>committed = [web_row 10 1, api_row 12 1], working = [web_row 10 1, api_row 12 1],
            calls = [QById 10 1, Commit]\<rparr>)"
    by (simp add: truthy_def project1_def web_and_api_def)
  from found inv 1 2 3 4 show ?thesis by blast
qed

text \<open>
  Claim C10. For the template \<open>T\<close> with identifier \<open>i\<close> in project \<open>p\<close>, whatever other
  sessions write meanwhile: an update whose alias is \<^verbatim>\<open>None\<close> or empty and whose config is
  \<^verbatim>\<open>None\<close> or empty succeeds and returns \<open>T\<close> as it is, and the call writes no row. With
  such an alias and a non-empty config it succeeds as well: the empty rename is ignored,
  not rejected, the config is set on the returned object, and the call still writes no row.
  With a config that is \<^verbatim>\<open>None\<close> or empty, a successful rename changes the alias and nothing
  else, and the returned object carries no config. When no other session writes, the rows
  after an update with an alias that is \<^verbatim>\<open>None\<close> or empty are the rows before it, and the
  identifier resolves to \<open>T\<close>.
\<close>

theorem C10_falsy_arguments_not_applied:
  assumes found: "find (\<lambda>t. tmpl_id t = i \<and> project_id t = proj_id p) (working s) = Some T"
  shows "((a = None \<or> a = Some []) \<and> (c = None \<or> c = Some [])
            \<longrightarrow> update_template p i a c ops s
                  = (Inr \<lparr>columns = T, plain_config = None\<rparr>,
                     s\<lparr>committed := fold store_try ops (working s),
                       working := fold store_try ops (working s),
                       calls := calls s @ [QById i (proj_id p), Commit]\<rparr>))
         \<and> ((a = None \<or> a = Some []) \<and> cfg \<noteq> []
            \<longrightarrow> update_template p i a (Some cfg) ops s
                  = (Inr \<lparr>columns = T, plain_config = Some cfg\<rparr>,
                     s\<lparr>committed := fold store_try ops (working s),
                       working := fold store_try ops (working s),
                       calls := calls s @ [QById i (proj_id p), Commit]\<rparr>))
         \<and> ((c = None \<or> c = Some []) \<and> b \<noteq> [] \<and> update_template p i (Some b) c ops s = (Inr u, s1)
            \<longrightarrow> u = \<lparr>columns = T\<lparr>tmpl_alias := b\<rparr>, plain_config = None\<rparr>)
         \<and> (a = None \<or> a = Some []
            \<longrightarrow> working (snd (update_template p i a c [] s)) = working s
                \<and> committed (snd (update_template p i a c [] s)) = working s
                \<and> get_template p i (snd (update_template p i a c [] s)) = Some T)"
proof (intro conjI impI)
  assume h: "(a = None \<or> a = Some []) \<and> (c = None \<or> c = Some [])"
  then have "truthy c = None" by (auto simp: truthy_def)
  with h update_keeps_alias [OF found, of a c ops]
  show "update_template p i a c ops s
                  = (Inr \<lparr>columns = T, plain_config = None\<rparr>,
                     s\<lparr>committed := fold store_try ops (working s),
                       working := fold store_try ops (working s),
                       calls := calls s @ [QById i (proj_id p), Commit]\<rparr>)"
    by auto
next
  assume h: "(a = None \<or> a = Some []) \<and> cfg \<noteq> []"
  then have "truthy (Some cfg) = Some cfg" by (simp add: truthy_def)
  with h update_keeps_alias [OF found, of a "Some cfg" ops]
  show "update_template p i a (Some cfg) ops s
                  = (Inr \<lparr>columns = T, plain_config = Some cfg\<rparr>,
                     s\<lparr>committed := fold store_try ops (working s),
                       working := fold store_try ops (working s),
                       calls := calls s @ [QById i (proj_id p), Commit]\<rparr>)"
    by auto
next
  assume h: "(c = None \<or> c = Some []) \<and> b \<noteq> [] \<and> update_template p i (Some b) c ops s = (Inr u, s1)"
  then have attr: "truthy c = None" by (auto simp: truthy_def)
  show "u = \<lparr>columns = T\<lparr>tmpl_alias := b\<rparr>, plain_config = None\<rparr>"
  proof (cases "b = tmpl_alias T")
    case True
    with h attr update_keeps_alias [OF found, of "Some b" c ops] show ?thesis
      by auto
  next
    case False
    with h attr show ?thesis
      by (auto simp: update_other_alias [OF found _ False] update_commit_def
            split: if_splits prod.splits sum.splits)
  qed
next
  assume h: "a = None \<or> a = Some []"
  note run = update_keeps_alias [OF found, of a c "[]"]
  from h run show "working (snd (update_template p i a c [] s)) = working s"
    and "committed (snd (update_template p i a c [] s)) = working s"
    by auto
  from h run found show "get_template p i (snd (update_template p i a c [] s)) = Some T"
    by (auto simp: get_template_def)
qed

theorem C10_falsy_arguments_not_applied_witness:
  "find (\<lambda>t. tmpl_id t = 10 \<and> project_id t = proj_id project1) (working web_and_api)
     = Some (web_row 10 1)
   \<and> update_template project1 10 (Some '''') (Some []) [] web_and_api
       = (Inr \<lparr>columns = web_row 10 1, plain_config = None\<rparr>,
          \<lparr>committed = [web_row 10 1, api_row 12 1], working = [web_row 10 1, api_row 12 1],
            calls = [QById 10 1, Commit]\<rparr>)
   \<and> update_template project1 10 (Some '''') (Some [(''cpu'', ''2'')]) [] web_and_api
       = (Inr \<lparr>columns = web_row 10 1, plain_config = Some [(''cpu'', ''2'')]\<rparr>,
          \<lparr>committed = [web_row 10 1, api_row 12 1], working = [web_row 10 1, api_row 12 1],
            calls = [QById 10 1, Commit]\<rparr>)
   \<and> get_template project1 10
        (snd (update_template project1 10 (Some '''') (Some [(''cpu'', ''2'')]) [] web_and_api))
       = Some (web_row 10 1)
   \<and> fst (update_template project1 10 (Some ''cli'') (Some []) [] web_and_api)
       = Inr \<lparr>columns = \<lparr>tmpl_id = 10, tmpl_alias = ''cli'', project_id = 1\<rparr>, plain_config = None\<rparr>"
proof -
  have found: "find (\<lambda>t. tmpl_id t = 10 \<and> project_id t = proj_id project1) (working web_and_api)
     = Some (web_row 10 1)"
    by (simp add: example_defs)
  note c10 = C10_falsy_arguments_not_applied [OF found]
  from c10 [of "Some ''''" "Some []" "[]"]
  have "update_template project1 10 (Some '''') (Some []) [] web_and_api
       = (Inr \<lparr>columns = web_row 10 1, plain_config = None\<rparr>,
          web_and_api\<lparr>committed := fold store_try [] (working web_and_api),
            working := fold store_try [] (working web_and_api),
            calls := calls web_and_api @ [QById 10 (proj_id project1), Commit]\<rparr>)"
    by blast
  then have 1: "update_template project1 10 (Some '''') (Some []) [] web_and_api
       = (Inr \<lparr>columns = web_row 10 1, plain_config = None\<rparr>,
          \<lparr>committed = [web_row 10 1, api_row 12 1], working = [web_row 10 1, api_row 12 1],
            calls = [QById 10 1, Commit]\<rparr>)"
    by (simp add: project1_def web_and_api_def)
  have ne: "[(''cpu'', ''2'')] \<noteq> ([] :: config_dict)" by simp
  from c10 [of "Some ''''" _ "[]" "[(''cpu'', ''2'')]"] ne
  have "update_template project1 10 (Some '''') (Some [(''cpu'', ''2'')]) [] web_and_api
       = (Inr \<lparr>columns = web_row 10 1, plain_config = Some [(''cpu'', ''2'')]\<rparr>,
          web_and_api\<lparr>committed := fold store_try [] (working web_and_api),
            working := fold store_try [] (working web_and_api),
            calls := calls web_and_api @ [QById 10 (proj_id project1), Commit]\<rparr>)"
    by blast
  then have 2: "update_template project1 10 (Some '''') (Some [(''cpu'', ''2'')]) [] web_and_api
       = (Inr \<lparr>columns = web_row 10 1, plain_config = Some [(''cpu'', ''2'')]\<rparr>,
          \<lparr>committed = [web_row 10 1, api_row 12 1], working = [web_row 10 1, api_row 12 1],
            calls = [QById 10 1, Commit]\<rparr>)"
    by (simp add: project1_def web_and_api_def)
  from c10 [of "Some ''''" "Some [(''cpu'', ''2'')]"]
  have 3: "get_template project1 10
        (snd (update_template project1 10 (Some '''') (Some [(''cpu'', ''2'')]) [] web_and_api))
       = Some (web_row 10 1)"
    by blast
  obtain u s1 where run: "update_template project1 10 (Some ''cli'') (Some []) [] web_and_api = (Inr u, s1)"
    by (simp add: service_defs session_defs example_defs)
  have cli: "''cli'' \<noteq> []" by simp
  from c10 [of _ "Some []" "[]" _ "''cli''" u s1] run cli
  have "u = \<lparr>columns = (web_row 10 1)\<lparr>tmpl_alias := ''cli''\<rparr>, plain_config = None\<rparr>"
    by blast
  with run have 4: "fst (update_template project1 10 (Some ''cli'') (Some []) [] web_and_api)
       = Inr \<lparr>columns = \<lparr>tmpl_id = 10, tmpl_alias = ''cli'', project_id = 1\<rparr>, plain_config = None\<rparr>"
    by (simp add: web_row_def)
  from found 1 2 3 4 show ?thesis by blast
qed

section \<open>Failing calls\<close>








end
